theory Spec2Isabelle
  imports Complex_Main "HOL-Library.Word"
begin

section \<open>The MIDI state of sfizz (src/sfizz/MidiState.cpp)\<close>

text \<open>
  The embedding follows MidiState.cpp function by function. C++ \<open>int\<close> arguments are
  \<open>int\<close>; \<open>unsigned\<close> values (the internal clock and the note timestamps) are
  \<open>32 word\<close>, so that \<open>internalClock + static_cast<unsigned>(delay)\<close> wraps as in the
  code; \<open>float\<close> values are \<open>real\<close> numbers: they are stored and copied as they
  are, and the one place where the code computes with them (the conversion of the sample
  count and the quotient in \<open>getNoteDuration\<close>) rounds to single precision as the
  machine does (\<open>float_round\<close> below).

  An access the code does not guard (an index outside a \<open>std::array\<close>, \<open>front()\<close> or
  \<open>back()\<close> of an empty vector) is undefined behaviour in C++; the model returns it as a
  value of type \<open>fault\<close>.
\<close>

subsection \<open>Events and event vectors\<close>

text \<open>\<open>struct MidiEvent { int delay; float value; }\<close>; the field \<open>value\<close> is \<open>val\<close> here.\<close>

record MidiEvent =
  delay :: int
  val :: real

type_synonym EventVector = "MidiEvent list"

datatype fault =
  OutOfBounds    \<comment> \<open>an index outside a fixed-size array\<close>
| EmptyVector    \<comment> \<open>\<open>front()\<close> or \<open>back()\<close> of an empty vector\<close>
| LengthError    \<comment> \<open>\<open>reserve\<close> beyond \<open>max_size()\<close> inside a \<open>noexcept\<close> function\<close>
| NotFinite      \<comment> \<open>a float result that is infinite or NaN\<close>

fun and_then :: "fault + 'a \<Rightarrow> ('a \<Rightarrow> fault + 'b) \<Rightarrow> fault + 'b" where
  "and_then (Inl e) f = Inl e"
| "and_then (Inr x) f = f x"

text \<open>
  Single precision arithmetic (IEEE 754 binary32, rounding to nearest, ties to even), which
  is what \<open>float\<close> computes with. \<open>float_exponent_from 253 x\<close> is the exponent of \<open>x\<close>
  counted from the smallest one: the largest \<open>j \<le> 253\<close> with \<open>2 ^ j \<le> \<bar>x\<bar> * 2 ^ 126\<close>, and
  0 for the subnormal numbers. Floats of that exponent are the integer multiples of the
  quantum \<open>2 ^ j / 2 ^ 149\<close> (24 significant bits); \<open>float_round\<close> takes the nearest
  multiple, the even one on a tie, and a result of magnitude \<open>2 ^ 128\<close> or more is an
  infinity.
\<close>

fun float_exponent_from :: "nat \<Rightarrow> real \<Rightarrow> nat" where
  "float_exponent_from 0 x = 0"
| "float_exponent_from (Suc k) x =
     (if 2 ^ Suc k \<le> \<bar>x\<bar> * 2 ^ 126 then Suc k else float_exponent_from k x)"

definition round_half_even :: "real \<Rightarrow> int" where
  "round_half_even y =
     (let f = \<lfloor>y\<rfloor> in
      if y - of_int f < 1 / 2 then f
      else if y - of_int f > 1 / 2 then f + 1
      else if even f then f else f + 1)"

definition float_round :: "real \<Rightarrow> fault + real" where
  "float_round x =
     (let quantum = 2 ^ float_exponent_from 253 x / 2 ^ 149;
          r = of_int (round_half_even (x / quantum)) * quantum
      in if \<bar>r\<bar> \<ge> 2 ^ 128 then Inl NotFinite else Inr r)"

text \<open>\<open>operator[]\<close> of a \<open>std::array\<close>: no check in the code, a fault outside the array.\<close>

definition array_at :: "'a list \<Rightarrow> int \<Rightarrow> fault + 'a" where
  "array_at xs i = (if 0 \<le> i \<and> i < int (length xs) then Inr (xs ! nat i) else Inl OutOfBounds)"

text \<open>\<open>back()\<close> of a vector.\<close>

definition vector_back :: "'a list \<Rightarrow> fault + 'a" where
  "vector_back xs = (if xs = [] then Inl EmptyVector else Inr (last xs))"

text \<open>
  Modelled from the spec: \<open>MidiEventDelayComparator\<close> is declared in a header that is not
  part of the sources at hand. The spec keeps a timeline "ascending by offset", so the
  comparator is the strict order on delays; \<open>upper_bound\<close> calls it with the searched
  delay first and the element second.
\<close>

definition MidiEventDelayComparator :: "int \<Rightarrow> MidiEvent \<Rightarrow> bool" where
  "MidiEventDelayComparator d event = (d < delay event)"

text \<open>
  \<open>absl::c_upper_bound(events, delay, comp)\<close>: the position of the first element for
  which \<open>comp(delay, element)\<close> holds, \<open>events.end()\<close> (the length) when there is none.
  The iterator is the index.
\<close>

fun upper_bound :: "EventVector \<Rightarrow> int \<Rightarrow> nat" where
  "upper_bound [] d = 0"
| "upper_bound (event # events) d =
     (if MidiEventDelayComparator d event then 0 else Suc (upper_bound events d))"

definition insertEventInVector :: "EventVector \<Rightarrow> int \<Rightarrow> real \<Rightarrow> EventVector" where
  "insertEventInVector events d v =
     (let insertionPoint = upper_bound events d in
      if insertionPoint = length events \<or> delay (events ! insertionPoint) \<noteq> d
      then take insertionPoint events @ \<lparr>delay = d, val = v\<rparr> # drop insertionPoint events
      else events[insertionPoint := (events ! insertionPoint)\<lparr>val := v\<rparr>])"

subsection \<open>The state\<close>

text \<open>
  The members of \<open>class MidiState\<close>. The three note tables are arrays of 128 entries and
  \<open>cc\<close> is an array of \<open>config::numCCs\<close> event vectors; they are lists here, and the
  functions below never change their lengths. \<open>activeNotes\<close> is a C++ \<open>int\<close>: its
  increment is defined in C++ only below \<open>INT_MAX\<close>.
\<close>

record MidiState =
  activeNotes :: int
  noteOnTimes :: "32 word list"
  noteOffTimes :: "32 word list"
  lastNoteVelocities :: "real list"
  lastNotePlayed :: int
  cc :: "EventVector list"
  pitchEvents :: EventVector
  channelAftertouchEvents :: EventVector
  sampleRate :: real
  samplesPerBlock :: int
  internalClock :: "32 word"

text \<open>
  The constants of the engine that MidiState.cpp reads but does not define (namespace
  \<open>config\<close>, and the constant member \<open>nullEvent\<close>) are parameters of the model.
\<close>

record config =
  numCCs :: nat
  defaultSampleRate :: real
  defaultSamplesPerBlock :: int
  nullEvent :: EventVector

subsection \<open>Notes\<close>

definition noteOnEvent :: "int \<Rightarrow> int \<Rightarrow> real \<Rightarrow> MidiState \<Rightarrow> MidiState" where
  "noteOnEvent d noteNumber velocity s =
     (if noteNumber \<ge> 0 \<and> noteNumber < 128 then
        s\<lparr>lastNoteVelocities := (lastNoteVelocities s)[nat noteNumber := velocity],
          noteOnTimes := (noteOnTimes s)[nat noteNumber := internalClock s + word_of_int d],
          lastNotePlayed := noteNumber,
          activeNotes := activeNotes s + 1\<rparr>
      else s)"

definition noteOffEvent :: "int \<Rightarrow> int \<Rightarrow> real \<Rightarrow> MidiState \<Rightarrow> MidiState" where
  "noteOffEvent d noteNumber velocity s =
     (if noteNumber \<ge> 0 \<and> noteNumber < 128 then
        s\<lparr>noteOffTimes := (noteOffTimes s)[nat noteNumber := internalClock s + word_of_int d],
          activeNotes := (if activeNotes s > 0 then activeNotes s - 1 else activeNotes s)\<rparr>
      else s)"

text \<open>\<open>for (int note = 0; note < 128; note++) noteOffEvent(delay, note, 0.0f);\<close>\<close>

definition allNotesOff :: "int \<Rightarrow> MidiState \<Rightarrow> MidiState" where
  "allNotesOff d s = fold (\<lambda>note. noteOffEvent d (int note) 0) [0..<128] s"

definition setSampleRate :: "real \<Rightarrow> MidiState \<Rightarrow> MidiState" where
  "setSampleRate sr s =
     s\<lparr>sampleRate := sr,
       internalClock := 0,
       noteOnTimes := map (\<lambda>_. 0) (noteOnTimes s),
       noteOffTimes := map (\<lambda>_. 0) (noteOffTimes s)\<rparr>"

text \<open>
  The lambda \<open>clearEvents\<close> of \<open>advanceTime\<close>: the first entry takes the last entry's
  value and delay 0, and the vector is cut to that entry.
\<close>

definition advanceTime_clearEvents :: "EventVector \<Rightarrow> fault + EventVector" where
  "advanceTime_clearEvents events =
     (if events = [] then Inl EmptyVector
      else Inr (take 1 (events[0 := (events ! 0)\<lparr>val := val (last events), delay := 0\<rparr>])))"

fun for_each :: "('a \<Rightarrow> fault + 'b) \<Rightarrow> 'a list \<Rightarrow> fault + 'b list" where
  "for_each f [] = Inr []"
| "for_each f (x # xs) =
     and_then (f x) (\<lambda>y. and_then (for_each f xs) (\<lambda>ys. Inr (y # ys)))"

definition advanceTime :: "int \<Rightarrow> MidiState \<Rightarrow> fault + MidiState" where
  "advanceTime numSamples s =
     and_then (for_each advanceTime_clearEvents (cc s)) (\<lambda>cc'.
     and_then (advanceTime_clearEvents (pitchEvents s)) (\<lambda>pitchEvents'.
     and_then (advanceTime_clearEvents (channelAftertouchEvents s)) (\<lambda>channelAftertouchEvents'.
       Inr (s\<lparr>internalClock := internalClock s + word_of_int numSamples,
              cc := cc',
              pitchEvents := pitchEvents',
              channelAftertouchEvents := channelAftertouchEvents'\<rparr>))))"

text \<open>
  \<open>setSamplesPerBlock\<close>: \<open>shrink_to_fit\<close> and \<open>reserve\<close> change the capacity of the
  vectors, which the model does not hold, and never their contents. \<open>reserve\<close> of a
  negative \<open>int\<close> (converted to a size beyond \<open>max_size()\<close>) throws inside the
  \<open>noexcept\<close> function.
\<close>

definition setSamplesPerBlock :: "int \<Rightarrow> MidiState \<Rightarrow> fault + MidiState" where
  "setSamplesPerBlock spb s =
     (if spb < 0 then Inl LengthError else Inr (s\<lparr>samplesPerBlock := spb\<rparr>))"

text \<open>
  \<open>getNoteDuration\<close>: \<open>static_cast<float>(timeInSamples)\<close> rounds the sample count to a
  float, and the quotient by the sample rate is rounded again; a sample rate of zero gives
  an infinity or a NaN.
\<close>

definition getNoteDuration :: "MidiState \<Rightarrow> int \<Rightarrow> int \<Rightarrow> fault + real" where
  "getNoteDuration s noteNumber d =
     (if noteNumber < 0 \<or> noteNumber \<ge> 128 then Inr 0
      else if noteOnTimes s ! nat noteNumber \<noteq> 0 \<and> noteOffTimes s ! nat noteNumber \<noteq> 0
              \<and> noteOnTimes s ! nat noteNumber > noteOffTimes s ! nat noteNumber then Inr 0
      else
        (let timeInSamples = internalClock s + word_of_int d - noteOnTimes s ! nat noteNumber in
         and_then (float_round (real (unat timeInSamples))) (\<lambda>time.
           if sampleRate s = 0 then Inl NotFinite
           else float_round (time / sampleRate s))))"

definition getNoteVelocity :: "MidiState \<Rightarrow> int \<Rightarrow> fault + real" where
  "getNoteVelocity s noteNumber = array_at (lastNoteVelocities s) noteNumber"

definition getLastVelocity :: "MidiState \<Rightarrow> fault + real" where
  "getLastVelocity s = array_at (lastNoteVelocities s) (lastNotePlayed s)"

subsection \<open>Controllers, pitch bend, aftertouch\<close>

definition pitchBendEvent :: "int \<Rightarrow> real \<Rightarrow> MidiState \<Rightarrow> MidiState" where
  "pitchBendEvent d pitchBendValue s =
     s\<lparr>pitchEvents := insertEventInVector (pitchEvents s) d pitchBendValue\<rparr>"

definition getPitchBend :: "MidiState \<Rightarrow> fault + real" where
  "getPitchBend s = and_then (vector_back (pitchEvents s)) (\<lambda>e. Inr (val e))"

definition channelAftertouchEvent :: "int \<Rightarrow> real \<Rightarrow> MidiState \<Rightarrow> MidiState" where
  "channelAftertouchEvent d aftertouch s =
     s\<lparr>channelAftertouchEvents := insertEventInVector (channelAftertouchEvents s) d aftertouch\<rparr>"

definition getChannelAftertouch :: "MidiState \<Rightarrow> fault + real" where
  "getChannelAftertouch s = and_then (vector_back (channelAftertouchEvents s)) (\<lambda>e. Inr (val e))"

definition ccEvent :: "int \<Rightarrow> int \<Rightarrow> real \<Rightarrow> MidiState \<Rightarrow> fault + MidiState" where
  "ccEvent d ccNumber ccValue s =
     and_then (array_at (cc s) ccNumber) (\<lambda>events.
       Inr (s\<lparr>cc := (cc s)[nat ccNumber := insertEventInVector events d ccValue]\<rparr>))"

definition getCCValue :: "MidiState \<Rightarrow> int \<Rightarrow> fault + real" where
  "getCCValue s ccNumber =
     and_then (array_at (cc s) ccNumber) (\<lambda>events.
     and_then (vector_back events) (\<lambda>e. Inr (val e)))"

subsection \<open>Reset\<close>

text \<open>The lambda \<open>clearEvents\<close> of \<open>reset\<close>: \<open>clear()\<close>, then \<open>push_back({ 0, 0.0f })\<close>.\<close>

definition reset_clearEvents :: "EventVector \<Rightarrow> EventVector" where
  "reset_clearEvents events = [] @ [\<lparr>delay = 0, val = 0\<rparr>]"

definition reset :: "MidiState \<Rightarrow> MidiState" where
  "reset s =
     s\<lparr>lastNoteVelocities := map (\<lambda>_. 0) (lastNoteVelocities s),
       cc := map reset_clearEvents (cc s),
       pitchEvents := reset_clearEvents (pitchEvents s),
       channelAftertouchEvents := reset_clearEvents (channelAftertouchEvents s),
       activeNotes := 0,
       internalClock := 0,
       lastNotePlayed := 0,
       noteOnTimes := map (\<lambda>_. 0) (noteOnTimes s),
       noteOffTimes := map (\<lambda>_. 0) (noteOffTimes s)\<rparr>"

text \<open>
  Modelled from the spec: the member declarations of MidiState.h, with their default
  initialisers, are not part of the sources at hand. The spec gives the note table 128
  entries and one timeline per controller number; the members are taken as
  value-initialised, the event vectors empty, and the sample rate and block length at the
  defaults of the configuration. The constructor of MidiState.cpp then calls \<open>reset\<close>,
  which overwrites every member but the last two.
\<close>

definition MidiState_members :: "config \<Rightarrow> MidiState" where
  "MidiState_members cfg =
     \<lparr>activeNotes = 0,
      noteOnTimes = replicate 128 0,
      noteOffTimes = replicate 128 0,
      lastNoteVelocities = replicate 128 0,
      lastNotePlayed = 0,
      cc = replicate (numCCs cfg) [],
      pitchEvents = [],
      channelAftertouchEvents = [],
      sampleRate = defaultSampleRate cfg,
      samplesPerBlock = defaultSamplesPerBlock cfg,
      internalClock = 0\<rparr>"

definition MidiState_new :: "config \<Rightarrow> MidiState" where
  "MidiState_new cfg = reset (MidiState_members cfg)"

text \<open>
  \<open>for (int ccIdx = 0; ccIdx < config::numCCs; ++ccIdx) ccEvent(delay, ccIdx, 0.0f);\<close>
  then \<open>pitchBendEvent(delay, 0.0f)\<close>.
\<close>

definition resetAllControllers :: "config \<Rightarrow> int \<Rightarrow> MidiState \<Rightarrow> fault + MidiState" where
  "resetAllControllers cfg d s =
     and_then
       (fold (\<lambda>ccIdx r. and_then r (ccEvent d (int ccIdx) 0)) [0..<numCCs cfg] (Inr s))
       (\<lambda>s'. Inr (pitchBendEvent d 0 s'))"

definition getCCEvents :: "config \<Rightarrow> MidiState \<Rightarrow> int \<Rightarrow> EventVector" where
  "getCCEvents cfg s ccIdx =
     (if ccIdx < 0 \<or> ccIdx \<ge> int (numCCs cfg) then nullEvent cfg else cc s ! nat ccIdx)"

definition getPitchEvents :: "MidiState \<Rightarrow> EventVector" where
  "getPitchEvents s = pitchEvents s"

definition getChannelAftertouchEvents :: "MidiState \<Rightarrow> EventVector" where
  "getChannelAftertouchEvents s = channelAftertouchEvents s"

subsection \<open>Predicates on timelines and states, and a concrete configuration\<close>

definition strictly_ascending :: "EventVector \<Rightarrow> bool" where
  "strictly_ascending events = sorted_wrt (\<lambda>a b. delay a < delay b) events"

definition ascending :: "EventVector \<Rightarrow> bool" where
  "ascending events = sorted_wrt (\<lambda>a b. delay a \<le> delay b) events"

text \<open>The array sizes that the C++ types fix.\<close>

definition sized :: "config \<Rightarrow> MidiState \<Rightarrow> bool" where
  "sized cfg s =
     (length (noteOnTimes s) = 128 \<and> length (noteOffTimes s) = 128
      \<and> length (lastNoteVelocities s) = 128 \<and> length (cc s) = numCCs cfg)"

text \<open>
  A configuration to evaluate on: 16 controllers, 48 kHz, blocks of 1024 samples, and the
  one-entry vector \<open>{ 0, 0.0f }\<close> as \<open>nullEvent\<close>.
\<close>

definition example_config :: config where
  "example_config =
     \<lparr>numCCs = 16, defaultSampleRate = 48000, defaultSamplesPerBlock = 1024,
      nullEvent = [\<lparr>delay = 0, val = 0\<rparr>]\<rparr>"

section \<open>Properties\<close>

subsection \<open>Rounding to single precision\<close>

lemma float_exponent_from_eq:
  assumes "j \<le> k" and "j = 0 \<or> 2 ^ j \<le> \<bar>x\<bar> * 2 ^ 126" and "\<bar>x\<bar> * 2 ^ 126 < 2 ^ Suc j"
  shows "float_exponent_from k x = j"
  using assms(1)
proof (induction k)
  case 0
  then show ?case by simp
next
  case (Suc k)
  show ?case
  proof (cases "j = Suc k")
    case True
    with assms(2) show ?thesis by auto
  next
    case False
    with Suc.prems have le: "j \<le> k" by simp
    then have "(2::real) ^ Suc j \<le> 2 ^ Suc k"
      by (intro power_increasing) simp_all
    with assms(3) have "\<not> 2 ^ Suc k \<le> \<bar>x\<bar> * 2 ^ 126" by linarith
    with Suc.IH [OF le] show ?thesis by simp
  qed
qed

lemma round_half_even_near:
  assumes "\<bar>y - of_int m\<bar> < 1 / 2"
  shows "round_half_even y = m"
proof -
  have "\<lfloor>y\<rfloor> = m \<or> \<lfloor>y\<rfloor> = m - 1"
    using assms by (auto simp: floor_eq_iff abs_less_iff)
  then show ?thesis
  proof
    assume f: "\<lfloor>y\<rfloor> = m"
    then have "of_int m \<le> y" by (metis of_int_floor_le)
    with assms f show ?thesis by (simp add: round_half_even_def Let_def abs_less_iff)
  next
    assume f: "\<lfloor>y\<rfloor> = m - 1"
    then have "y < of_int m" by (metis floor_less_iff less_add_one diff_add_cancel)
    with assms f show ?thesis by (simp add: round_half_even_def Let_def abs_less_iff)
  qed
qed

text \<open>
  The value of \<open>float_round\<close> from the exponent \<open>j\<close> of \<open>x\<close> and an integer \<open>m\<close> less than
  half a quantum away.
\<close>

lemma float_round_eq:
  assumes "j \<le> 253" and "j = 0 \<or> 2 ^ j \<le> \<bar>x\<bar> * 2 ^ 126" and "\<bar>x\<bar> * 2 ^ 126 < 2 ^ Suc j"
    and "\<bar>x / (2 ^ j / 2 ^ 149) - of_int m\<bar> < 1 / 2"
    and "\<bar>of_int m * (2 ^ j / 2 ^ 149)\<bar> < (2::real) ^ 128"
  shows "float_round x = Inr (of_int m * (2 ^ j / 2 ^ 149))"
proof -
  have e: "float_exponent_from 253 x = j"
    using assms(1-3) by (rule float_exponent_from_eq)
  have r: "round_half_even (x / (2 ^ j / 2 ^ 149)) = m"
    using assms(4) by (rule round_half_even_near)
  from assms(5) show ?thesis
    by (simp only: float_round_def Let_def e r) simp
qed

lemma float_round_0: "float_round 0 = Inr 0"
  using float_round_eq [of 0 0 0] by simp

lemma float_round_1: "float_round 1 = Inr 1"
  using float_round_eq [of 126 1 8388608] by simp

lemma float_round_half: "float_round (1 / 2) = Inr (1 / 2)"
  using float_round_eq [of 125 "1 / 2" 8388608] by simp

lemma float_round_45: "float_round 45 = Inr 45"
  using float_round_eq [of 131 45 11796480] by simp


lemma float_round_48000: "float_round 48000 = Inr 48000"
  using float_round_eq [of 141 48000 12288000] by simp

lemma float_round_45_48000: "float_round (45 / 48000) = Inr (16106127 / 17179869184)"
  using float_round_eq [of 115 "45 / 48000" 16106127] by simp


subsection \<open>Insertion into an event vector\<close>

lemma insertEventInVector_Nil: "insertEventInVector [] d v = [\<lparr>delay = d, val = v\<rparr>]"
  by (simp add: insertEventInVector_def)

lemma upper_bound_le: "upper_bound events d \<le> length events"
  by (induction events) auto

lemma upper_bound_greater:
  "upper_bound events d < length events \<Longrightarrow> d < delay (events ! upper_bound events d)"
  by (induction events) (auto simp: MidiEventDelayComparator_def)

lemma insertEventInVector_inserts:
  "insertEventInVector events d v =
     take (upper_bound events d) events @ \<lparr>delay = d, val = v\<rparr> # drop (upper_bound events d) events"
proof (cases "upper_bound events d = length events")
  case True
  then show ?thesis by (simp add: insertEventInVector_def)
next
  case False
  with upper_bound_le [of events d] have "upper_bound events d < length events" by simp
  from upper_bound_greater [OF this] show ?thesis
    by (simp add: insertEventInVector_def Let_def)
qed

lemma insertEventInVector_Cons:
  "insertEventInVector (e # events) d v =
     (if d < delay e then \<lparr>delay = d, val = v\<rparr> # e # events
      else e # insertEventInVector events d v)"
  by (simp add: insertEventInVector_inserts MidiEventDelayComparator_def)

lemma length_insertEventInVector:
  "length (insertEventInVector events d v) = Suc (length events)"
  by (induction events) (simp_all add: insertEventInVector_Nil insertEventInVector_Cons)

lemma insertEventInVector_not_Nil: "insertEventInVector events d v \<noteq> []"
  by (cases events) (simp_all add: insertEventInVector_Nil insertEventInVector_Cons)

lemma set_insertEventInVector:
  "set (insertEventInVector events d v) = insert \<lparr>delay = d, val = v\<rparr> (set events)"
  by (induction events) (auto simp: insertEventInVector_Nil insertEventInVector_Cons)

lemma ascending_insertEventInVector:
  "ascending events \<Longrightarrow> ascending (insertEventInVector events d v)"
  unfolding ascending_def
  by (induction events)
     (auto simp: insertEventInVector_Nil insertEventInVector_Cons set_insertEventInVector)




lemma MidiState_new_eq:
  "MidiState_new cfg =
     \<lparr>activeNotes = 0,
      noteOnTimes = replicate 128 0,
      noteOffTimes = replicate 128 0,
      lastNoteVelocities = replicate 128 0,
      lastNotePlayed = 0,
      cc = replicate (numCCs cfg) [\<lparr>delay = 0, val = 0\<rparr>],
      pitchEvents = [\<lparr>delay = 0, val = 0\<rparr>],
      channelAftertouchEvents = [\<lparr>delay = 0, val = 0\<rparr>],
      sampleRate = defaultSampleRate cfg,
      samplesPerBlock = defaultSamplesPerBlock cfg,
      internalClock = 0\<rparr>"
  by (simp add: MidiState_new_def MidiState_members_def reset_def reset_clearEvents_def
      map_replicate_const)

lemma map_reset_clearEvents:
  "map reset_clearEvents lanes = replicate (length lanes) [\<lparr>delay = 0, val = 0\<rparr>]"
  by (induction lanes) (simp_all add: reset_clearEvents_def)

lemma reset_eq:
  "sized cfg s \<Longrightarrow>
     reset s = (MidiState_new cfg)\<lparr>sampleRate := sampleRate s, samplesPerBlock := samplesPerBlock s\<rparr>"
  by (cases s)
     (simp add: MidiState_new_eq reset_def reset_clearEvents_def sized_def map_replicate_const
       map_reset_clearEvents)

subsection \<open>The loops over controllers and notes\<close>

lemma array_at_in_range: "i < length xs \<Longrightarrow> array_at xs (int i) = Inr (xs ! i)"
  by (simp add: array_at_def)

lemma ccEvent_in_range:
  "i < length (cc s) \<Longrightarrow>
     ccEvent d (int i) v s = Inr (s\<lparr>cc := (cc s)[i := insertEventInVector (cc s ! i) d v]\<rparr>)"
  by (simp add: ccEvent_def array_at_in_range)

lemma map_take_Suc_update:
  assumes "k < length xs"
  shows "(map f (take k xs) @ drop k xs)[k := f (xs ! k)] = map f (take (Suc k) xs) @ drop (Suc k) xs"
proof -
  have "drop k xs = xs ! k # drop (Suc k) xs"
    using assms by (simp add: Cons_nth_drop_Suc)
  moreover have "length (map f (take k xs)) = k"
    using assms by simp
  ultimately show ?thesis
    using assms by (simp add: list_update_append take_Suc_conv_app_nth)
qed

lemma ccEvent_loop:
  "k \<le> length (cc s) \<Longrightarrow>
     fold (\<lambda>ccIdx r. and_then r (ccEvent d (int ccIdx) 0)) [0..<k] (Inr s) =
       Inr (s\<lparr>cc := map (\<lambda>events. insertEventInVector events d 0) (take k (cc s)) @ drop k (cc s)\<rparr>)"
proof (induction k)
  case 0
  show ?case by simp
next
  case (Suc k)
  then have k: "k < length (cc s)" by simp
  have nth: "(map (\<lambda>events. insertEventInVector events d 0) (take k (cc s)) @ drop k (cc s)) ! k = cc s ! k"
    using k by (simp add: nth_append)
  have upd: "(map (\<lambda>events. insertEventInVector events d 0) (take k (cc s)) @ drop k (cc s))
                [k := insertEventInVector (cc s ! k) d 0]
             = map (\<lambda>events. insertEventInVector events d 0) (take (Suc k) (cc s)) @ drop (Suc k) (cc s)"
    using map_take_Suc_update [OF k, of "\<lambda>events. insertEventInVector events d 0"] by simp
  have "fold (\<lambda>ccIdx r. and_then r (ccEvent d (int ccIdx) 0)) [0..<Suc k] (Inr s)
          = and_then (fold (\<lambda>ccIdx r. and_then r (ccEvent d (int ccIdx) 0)) [0..<k] (Inr s))
              (ccEvent d (int k) 0)"
    by simp
  also have "\<dots> = ccEvent d (int k) 0
       (s\<lparr>cc := map (\<lambda>events. insertEventInVector events d 0) (take k (cc s)) @ drop k (cc s)\<rparr>)"
    using Suc k by simp
  also have "\<dots> = Inr (s\<lparr>cc := map (\<lambda>events. insertEventInVector events d 0) (take (Suc k) (cc s))
                                @ drop (Suc k) (cc s)\<rparr>)"
    using k by (simp add: ccEvent_in_range nth upd)
  finally show ?case .
qed

lemma resetAllControllers_eq:
  "length (cc s) = numCCs cfg \<Longrightarrow>
     resetAllControllers cfg d s =
       Inr (s\<lparr>cc := map (\<lambda>events. insertEventInVector events d 0) (cc s),
              pitchEvents := insertEventInVector (pitchEvents s) d 0\<rparr>)"
  using ccEvent_loop [of "numCCs cfg" s d]
  by (simp add: resetAllControllers_def pitchBendEvent_def)

lemma noteOffEvent_loop:
  "k \<le> 128 \<Longrightarrow>
     fold (\<lambda>note. noteOffEvent d (int note) 0) [0..<k] s =
       s\<lparr>noteOffTimes :=
            replicate (min k (length (noteOffTimes s))) (internalClock s + word_of_int d)
              @ drop k (noteOffTimes s),
         activeNotes := (if activeNotes s > 0 then max 0 (activeNotes s - int k) else activeNotes s)\<rparr>"
proof (induction k)
  case 0
  show ?case by simp
next
  case (Suc k)
  let ?t = "internalClock s + word_of_int d"
  let ?xs = "noteOffTimes s"
  have upd: "(replicate (min k (length ?xs)) ?t @ drop k ?xs)[k := ?t]
               = replicate (min (Suc k) (length ?xs)) ?t @ drop (Suc k) ?xs"
  proof (cases "k < length ?xs")
    case True
    then have "drop k ?xs = ?xs ! k # drop (Suc k) ?xs" by (simp add: Cons_nth_drop_Suc)
    with True show ?thesis
      by (simp add: list_update_append min_def replicate_append_same)
  next
    case False
    then show ?thesis by (simp add: min_def list_update_beyond)
  qed
  from Suc show ?case
    by (simp add: noteOffEvent_def upd)
qed

subsection \<open>Guards, counters and sequences of insertions\<close>


lemma noteOnEvent_funpow_activeNotes:
  "0 \<le> n \<Longrightarrow> n < 128 \<Longrightarrow>
     activeNotes ((noteOnEvent d n v ^^ k) s) = activeNotes s + int k"
  by (induction k) (simp_all add: noteOnEvent_def)

lemma noteOnEvent_out_of_range: "n < 0 \<or> 128 \<le> n \<Longrightarrow> noteOnEvent d n v s = s"
  by (auto simp: noteOnEvent_def)

lemma noteOffEvent_out_of_range: "n < 0 \<or> 128 \<le> n \<Longrightarrow> noteOffEvent d n v s = s"
  by (auto simp: noteOffEvent_def)

lemma getNoteDuration_out_of_range: "n < 0 \<or> 128 \<le> n \<Longrightarrow> getNoteDuration s n d = Inr 0"
  by (auto simp: getNoteDuration_def)

lemma getCCEvents_out_of_range:
  "i < 0 \<or> int (numCCs cfg) \<le> i \<Longrightarrow> getCCEvents cfg s i = nullEvent cfg"
  by (auto simp: getCCEvents_def)

lemma insertions_nonempty_ascending:
  "lane \<noteq> [] \<Longrightarrow> ascending lane \<Longrightarrow>
     fold (\<lambda>(d, v) events. insertEventInVector events d v) ins lane \<noteq> []
     \<and> ascending (fold (\<lambda>(d, v) events. insertEventInVector events d v) ins lane)"
proof (induction ins arbitrary: lane)
  case Nil
  then show ?case by simp
next
  case (Cons a ins)
  obtain d v where a: "a = (d, v)" by (cases a)
  have "insertEventInVector lane d v \<noteq> []" by (rule insertEventInVector_not_Nil)
  moreover have "ascending (insertEventInVector lane d v)"
    using Cons.prems(2) by (rule ascending_insertEventInVector)
  ultimately show ?case
    using Cons.IH [of "insertEventInVector lane d v"] by (simp add: a)
qed

subsection \<open>The array sizes are kept; unguarded indices\<close>

lemma sized_MidiState_new: "sized cfg (MidiState_new cfg)"
  by (simp add: sized_def MidiState_new_eq)

lemma sized_noteOnEvent: "sized cfg s \<Longrightarrow> sized cfg (noteOnEvent d n v s)"
  by (simp add: sized_def noteOnEvent_def)

lemma sized_noteOffEvent: "sized cfg s \<Longrightarrow> sized cfg (noteOffEvent d n v s)"
  by (simp add: sized_def noteOffEvent_def)

lemma sized_allNotesOff: "sized cfg s \<Longrightarrow> sized cfg (allNotesOff d s)"
  by (simp add: sized_def allNotesOff_def noteOffEvent_loop)

lemma sized_setSampleRate: "sized cfg s \<Longrightarrow> sized cfg (setSampleRate sr s)"
  by (simp add: sized_def setSampleRate_def)

lemma sized_setSamplesPerBlock:
  "setSamplesPerBlock spb s = Inr s' \<Longrightarrow> sized cfg s \<Longrightarrow> sized cfg s'"
  by (auto simp: sized_def setSamplesPerBlock_def split: if_splits)

lemma sized_reset: "sized cfg s \<Longrightarrow> sized cfg (reset s)"
  by (simp add: sized_def reset_def)

lemma sized_pitchBendEvent: "sized cfg s \<Longrightarrow> sized cfg (pitchBendEvent d v s)"
  by (simp add: sized_def pitchBendEvent_def)

lemma sized_channelAftertouchEvent: "sized cfg s \<Longrightarrow> sized cfg (channelAftertouchEvent d v s)"
  by (simp add: sized_def channelAftertouchEvent_def)

lemma sized_ccEvent: "ccEvent d i v s = Inr s' \<Longrightarrow> sized cfg s \<Longrightarrow> sized cfg s'"
  by (auto simp: sized_def ccEvent_def array_at_def split: if_splits)

lemma sized_resetAllControllers:
  "sized cfg s \<Longrightarrow> \<exists>s'. resetAllControllers cfg d s = Inr s' \<and> sized cfg s'"
  by (simp add: sized_def resetAllControllers_eq)

lemma length_for_each: "for_each f xs = Inr ys \<Longrightarrow> length ys = length xs"
proof (induction xs arbitrary: ys)
  case Nil
  then show ?case by simp
next
  case (Cons x xs)
  then show ?case
    by (cases "f x"; cases "for_each f xs") auto
qed

lemma sized_advanceTime: "advanceTime k s = Inr s' \<Longrightarrow> sized cfg s \<Longrightarrow> sized cfg s'"
proof -
  assume a: "advanceTime k s = Inr s'" and z: "sized cfg s"
  from a obtain lanes where l: "for_each advanceTime_clearEvents (cc s) = Inr lanes"
    by (cases "for_each advanceTime_clearEvents (cc s)") (simp_all add: advanceTime_def)
  from a l obtain p where p: "advanceTime_clearEvents (pitchEvents s) = Inr p"
    by (cases "advanceTime_clearEvents (pitchEvents s)") (simp_all add: advanceTime_def)
  from a l p obtain c where c: "advanceTime_clearEvents (channelAftertouchEvents s) = Inr c"
    by (cases "advanceTime_clearEvents (channelAftertouchEvents s)") (simp_all add: advanceTime_def)
  from a l p c z length_for_each [OF l] show ?thesis
    by (auto simp: advanceTime_def sized_def)
qed

lemma getNoteVelocity_out_of_range:
  "n < 0 \<or> int (length (lastNoteVelocities s)) \<le> n \<Longrightarrow> getNoteVelocity s n = Inl OutOfBounds"
  by (auto simp: getNoteVelocity_def array_at_def)

lemma ccEvent_out_of_range:
  "i < 0 \<or> int (length (cc s)) \<le> i \<Longrightarrow> ccEvent d i v s = Inl OutOfBounds"
  by (auto simp: ccEvent_def array_at_def)

lemma getCCValue_out_of_range:
  "i < 0 \<or> int (length (cc s)) \<le> i \<Longrightarrow> getCCValue s i = Inl OutOfBounds"
  by (auto simp: getCCValue_def array_at_def)

section \<open>The claims\<close>

subsection \<open>C1: insertion at an offset that is already present\<close>

text \<open>
  C1 says that inserting a value at an offset that already has an entry overwrites this
  entry, so that the lane does not grow. \<open>insertEventInVector\<close> has a branch that
  overwrites, but it searches with \<open>upper_bound\<close>, which returns the first entry
  strictly later than the offset: the entry found never has the offset itself, and the
  branch is never taken (\<open>insertEventInVector_inserts\<close>, \<open>length_insertEventInVector\<close>).
  The evaluation below is the scenario of the spec on a new state: controller 7 receives
  0.5 and then 0.9 at offset 10, and its lane holds both entries after the sentinel.
\<close>

theorem ccEvent_same_offset_twice_grows:
  "and_then (ccEvent 10 7 (1/2) (MidiState_new example_config)) (\<lambda>s.
     and_then (ccEvent 10 7 (9/10) s) (\<lambda>s'. Inr (getCCEvents example_config s' 7)))
   = Inr [\<lparr>delay = 0, val = 0\<rparr>, \<lparr>delay = 10, val = 1/2\<rparr>, \<lparr>delay = 10, val = 9/10\<rparr>]"
  by (simp add: MidiState_new_eq example_config_def ccEvent_def array_at_def getCCEvents_def
      insertEventInVector_Cons insertEventInVector_Nil)

subsection \<open>C2: the invariant of a timeline\<close>

text \<open>
  C2 says that, from the reset state, a timeline stays non-empty, strictly ascending by
  offset and with one entry per offset under insertions, and that advancing leaves one
  entry at offset 0 with the last value. Non-emptiness and the weak order hold
  (\<open>insertions_nonempty_ascending\<close>), and so does the part on advancing
  (\<open>advanceTime_nonempty\<close>). The strict order and the uniqueness of offsets do not: after
  two pitch bend events at offset 10 on a new state the pitch lane is neither strictly
  ascending nor free of repeated offsets.
\<close>

theorem pitchBendEvent_same_offset_not_strictly_ascending:
  "\<not> strictly_ascending
       (getPitchEvents (pitchBendEvent 10 (9/10) (pitchBendEvent 10 (1/2) (MidiState_new example_config))))
   \<and> \<not> distinct (map delay
       (getPitchEvents (pitchBendEvent 10 (9/10) (pitchBendEvent 10 (1/2) (MidiState_new example_config)))))"
  by (simp add: MidiState_new_eq getPitchEvents_def pitchBendEvent_def strictly_ascending_def
      insertEventInVector_Cons insertEventInVector_Nil)

subsection \<open>C3: indices out of range\<close>

text \<open>
  C3 says that every operation indexing a table by note number or controller index
  checks the index. \<open>noteOnEvent\<close>, \<open>noteOffEvent\<close>, \<open>getNoteDuration\<close> and
  \<open>getCCEvents\<close> do (\<open>noteOnEvent_out_of_range\<close>, \<open>noteOffEvent_out_of_range\<close>,
  \<open>getNoteDuration_out_of_range\<close>, \<open>getCCEvents_out_of_range\<close>). \<open>getNoteVelocity\<close>,
  \<open>ccEvent\<close> and \<open>getCCValue\<close> only assert the range, which a release build drops, and
  index the array directly (\<open>getNoteVelocity_out_of_range\<close>, \<open>ccEvent_out_of_range\<close>,
  \<open>getCCValue_out_of_range\<close>): on a new state, note number 128, controller index 16 (the
  number of controllers of the configuration) and controller index -1 each reach the
  array outside its bounds.
\<close>

theorem unchecked_index_out_of_bounds:
  "getNoteVelocity (MidiState_new example_config) 128 = Inl OutOfBounds
   \<and> ccEvent 0 16 (1/2) (MidiState_new example_config) = Inl OutOfBounds
   \<and> getCCValue (MidiState_new example_config) (- 1) = Inl OutOfBounds"
  by (simp add: MidiState_new_eq example_config_def getNoteVelocity_def ccEvent_def
      getCCValue_def array_at_def)

subsection \<open>C4: the duration of a note whose note-on is later than its note-off\<close>

text \<open>
  C4 says that \<open>getNoteDuration\<close> returns 0 whenever the stored note-on timestamp is
  strictly later than the stored note-off timestamp. The guard of the code also asks that
  both timestamps differ from the sentinel 0. C4, counterexample: on a new state, a
  note-on for note 60 at offset 5 stores the timestamp 5 while the note-off timestamp is
  still 0; the duration asked at offset 50 is 45 samples, not 0.
\<close>

theorem getNoteDuration_note_never_released_counterexample:
  "noteOnTimes (noteOnEvent 5 60 (4/5) (MidiState_new example_config)) ! 60
     > noteOffTimes (noteOnEvent 5 60 (4/5) (MidiState_new example_config)) ! 60
   \<and> getNoteDuration (noteOnEvent 5 60 (4/5) (MidiState_new example_config)) 60 50 \<noteq> Inr 0"
  by (simp add: MidiState_new_eq example_config_def noteOnEvent_def getNoteDuration_def
      float_round_45 float_round_45_48000 [simplified])

text \<open>
  C4, as amended: for every note number in range and every offset, if the stored note-on
  timestamp is strictly later than the stored note-off timestamp and the note-off
  timestamp is not the sentinel 0, then \<open>getNoteDuration\<close> returns 0.
\<close>

theorem getNoteDuration_on_after_off_zero:
  assumes "0 \<le> n" and "n < 128"
    and "noteOffTimes s ! nat n \<noteq> 0"
    and "noteOnTimes s ! nat n > noteOffTimes s ! nat n"
  shows "getNoteDuration s n d = Inr 0"
proof -
  from assms(4) have "noteOnTimes s ! nat n \<noteq> 0"
    by (auto simp: word_less_nat_alt)
  with assms show ?thesis by (simp add: getNoteDuration_def)
qed

theorem getNoteDuration_on_after_off_zero_witness:
  "(0::int) \<le> 60 \<and> (60::int) < 128
   \<and> noteOffTimes (noteOnEvent 20 60 (4/5) (noteOffEvent 10 60 0 (MidiState_new example_config))) ! 60 \<noteq> 0
   \<and> noteOnTimes (noteOnEvent 20 60 (4/5) (noteOffEvent 10 60 0 (MidiState_new example_config))) ! 60
      > noteOffTimes (noteOnEvent 20 60 (4/5) (noteOffEvent 10 60 0 (MidiState_new example_config))) ! 60
   \<and> getNoteDuration (noteOnEvent 20 60 (4/5) (noteOffEvent 10 60 0 (MidiState_new example_config))) 60 30 = Inr 0"
proof -
  let ?s = "noteOnEvent 20 60 (4/5) (noteOffEvent 10 60 0 (MidiState_new example_config))"
  have on: "noteOnTimes ?s ! 60 = 20" and off: "noteOffTimes ?s ! 60 = 10"
    by (simp_all add: MidiState_new_eq noteOnEvent_def noteOffEvent_def)
  have h: "noteOffTimes ?s ! nat 60 \<noteq> 0"
    "noteOnTimes ?s ! nat 60 > noteOffTimes ?s ! nat 60"
    by (simp_all add: on off)
  from getNoteDuration_on_after_off_zero [of 60 ?s 30, OF _ _ h]
  have "getNoteDuration ?s 60 30 = Inr 0" by simp
  with h show ?thesis by simp
qed

subsection \<open>C5: reset and construction\<close>

text \<open>
  C5 says that \<open>reset\<close> gives a state that no query tells from the state after
  construction, also after \<open>setSampleRate\<close>. \<open>reset\<close> does not touch the sample rate
  (nor the block length), and \<open>getNoteDuration\<close> divides by it. C5, counterexample: after
  \<open>setSampleRate(96000)\<close> and \<open>reset\<close>, the duration of note 60 at offset 48000 is half a
  second; on the state after construction, at 48 kHz, it is one second.
\<close>

theorem reset_keeps_sampleRate_counterexample:
  "getNoteDuration (reset (setSampleRate 96000 (MidiState_new example_config))) 60 48000
     \<noteq> getNoteDuration (MidiState_new example_config) 60 48000"
  by (simp add: MidiState_new_eq example_config_def setSampleRate_def reset_def getNoteDuration_def
      float_round_48000 float_round_half [simplified] float_round_1)

text \<open>
  C5, as amended: for every state (with the array sizes of the types), \<open>reset\<close> yields
  the state after construction except for the sample rate and the block length, which keep
  their current values; every query on velocities, controllers, pitch bend and aftertouch
  (latest values and timelines) answers as on the state after construction, and a note
  duration answers as on the state after construction with the current sample rate.
\<close>

theorem reset_restores_all_but_rate_and_block:
  assumes "sized cfg s"
  shows "reset s = (MidiState_new cfg)\<lparr>sampleRate := sampleRate s, samplesPerBlock := samplesPerBlock s\<rparr>
    \<and> getNoteVelocity (reset s) n = getNoteVelocity (MidiState_new cfg) n
    \<and> getLastVelocity (reset s) = getLastVelocity (MidiState_new cfg)
    \<and> getCCValue (reset s) i = getCCValue (MidiState_new cfg) i
    \<and> getCCEvents cfg (reset s) i = getCCEvents cfg (MidiState_new cfg) i
    \<and> getPitchBend (reset s) = getPitchBend (MidiState_new cfg)
    \<and> getPitchEvents (reset s) = getPitchEvents (MidiState_new cfg)
    \<and> getChannelAftertouch (reset s) = getChannelAftertouch (MidiState_new cfg)
    \<and> getChannelAftertouchEvents (reset s) = getChannelAftertouchEvents (MidiState_new cfg)
    \<and> getNoteDuration (reset s) n d
        = getNoteDuration ((MidiState_new cfg)\<lparr>sampleRate := sampleRate s\<rparr>) n d"
  unfolding reset_eq [OF assms]
  by (simp add: getNoteVelocity_def getLastVelocity_def getCCValue_def getCCEvents_def
      getPitchBend_def getPitchEvents_def getChannelAftertouch_def
      getChannelAftertouchEvents_def getNoteDuration_def cong: if_cong)

theorem reset_restores_all_but_rate_and_block_witness:
  "sized example_config (setSampleRate 96000 (noteOnEvent 0 60 (4/5) (MidiState_new example_config)))
   \<and> reset (setSampleRate 96000 (noteOnEvent 0 60 (4/5) (MidiState_new example_config)))
       = (MidiState_new example_config)\<lparr>sampleRate := 96000\<rparr>"
proof -
  let ?s = "setSampleRate 96000 (noteOnEvent 0 60 (4/5) (MidiState_new example_config))"
  have h: "sized example_config ?s"
    by (simp add: sized_def setSampleRate_def noteOnEvent_def MidiState_new_eq)
  have "sampleRate ?s = 96000" "samplesPerBlock ?s = samplesPerBlock (MidiState_new example_config)"
    by (simp_all add: setSampleRate_def noteOnEvent_def)
  with reset_restores_all_but_rate_and_block [OF h, of 0 0 0] h show ?thesis by simp
qed

subsection \<open>C6: reset of all controllers\<close>

text \<open>
  C6: for every state and offset \<open>d\<close>, \<open>resetAllControllers\<close> inserts an event of value
  0 at offset \<open>d\<close> into every controller lane and into the pitch bend lane, and leaves the
  channel aftertouch lane, and so its latest value, unchanged. The hypothesis is the size
  of the array \<open>cc\<close>, which its C++ type fixes.
\<close>

theorem resetAllControllers_frame:
  assumes "length (cc s) = numCCs cfg"
  shows "\<exists>s'. resetAllControllers cfg d s = Inr s'
     \<and> cc s' = map (\<lambda>events. insertEventInVector events d 0) (cc s)
     \<and> list_all (\<lambda>events. \<lparr>delay = d, val = 0\<rparr> \<in> set events) (cc s')
     \<and> pitchEvents s' = insertEventInVector (pitchEvents s) d 0
     \<and> \<lparr>delay = d, val = 0\<rparr> \<in> set (pitchEvents s')
     \<and> channelAftertouchEvents s' = channelAftertouchEvents s
     \<and> getChannelAftertouch s' = getChannelAftertouch s"
  by (simp add: resetAllControllers_eq [OF assms] set_insertEventInVector list_all_iff
      getChannelAftertouch_def)

theorem resetAllControllers_frame_witness:
  "length (cc (channelAftertouchEvent 3 (1/2) (MidiState_new example_config))) = numCCs example_config
   \<and> (\<exists>s'. resetAllControllers example_config 5
               (channelAftertouchEvent 3 (1/2) (MidiState_new example_config)) = Inr s'
        \<and> cc s' = replicate 16 [\<lparr>delay = 0, val = 0\<rparr>, \<lparr>delay = 5, val = 0\<rparr>]
        \<and> pitchEvents s' = [\<lparr>delay = 0, val = 0\<rparr>, \<lparr>delay = 5, val = 0\<rparr>]
        \<and> channelAftertouchEvents s' = [\<lparr>delay = 0, val = 0\<rparr>, \<lparr>delay = 3, val = 1/2\<rparr>]
        \<and> getChannelAftertouch s' = Inr (1/2))"
proof -
  let ?s = "channelAftertouchEvent 3 (1/2) (MidiState_new example_config)"
  have h: "length (cc ?s) = numCCs example_config"
    by (simp add: channelAftertouchEvent_def MidiState_new_eq)
  have s: "cc ?s = replicate 16 [\<lparr>delay = 0, val = 0\<rparr>]"
    "pitchEvents ?s = [\<lparr>delay = 0, val = 0\<rparr>]"
    "channelAftertouchEvents ?s = [\<lparr>delay = 0, val = 0\<rparr>, \<lparr>delay = 3, val = 1/2\<rparr>]"
    by (simp_all add: channelAftertouchEvent_def MidiState_new_eq example_config_def
        insertEventInVector_Cons insertEventInVector_Nil)
  from resetAllControllers_frame [OF h, of 5]
  obtain s' where r: "resetAllControllers example_config 5 ?s = Inr s'"
    and c: "cc s' = map (\<lambda>events. insertEventInVector events 5 0) (cc ?s)"
    and p: "pitchEvents s' = insertEventInVector (pitchEvents ?s) 5 0"
    and a: "channelAftertouchEvents s' = channelAftertouchEvents ?s"
    by blast
  have "getChannelAftertouch s' = Inr (1/2)"
    by (simp add: getChannelAftertouch_def vector_back_def a s)
  with r c p a h show ?thesis
    by (simp add: s insertEventInVector_Cons insertEventInVector_Nil)
qed

subsection \<open>C7: the duration of a note started at the first sample\<close>



subsection \<open>C8: all notes off\<close>

text \<open>
  C8 says that after \<open>allNotesOff\<close> the count of active notes is 0 in every state. The
  call issues 128 note-offs, each lowering the count by one, while the count goes up with
  every note-on (C9). C8, counterexample: after 129 note-ons for note 60 on a new state,
  \<open>allNotesOff(0)\<close> leaves the count at 1.
\<close>

theorem allNotesOff_count_counterexample:
  "activeNotes (allNotesOff 0 ((noteOnEvent 0 60 (4/5) ^^ 129) (MidiState_new example_config))) \<noteq> 0"
  by (simp add: allNotesOff_def noteOffEvent_loop noteOnEvent_funpow_activeNotes MidiState_new_eq)

text \<open>
  C8, as amended: for every state (with a count that is not negative) and offset \<open>d\<close>,
  \<open>allNotesOff\<close> sets the note-off timestamp of every one of the 128 notes to
  \<open>internalClock + d\<close> and lowers the count of active notes by 128, stopping at 0, so that
  the count is 0 afterwards when it was at most 128; each single note-off for a note in
  range lowers the count by one, never below 0.
\<close>

theorem allNotesOff_timestamps_and_count:
  assumes "length (noteOffTimes s) = 128" and "0 \<le> activeNotes s"
  shows "noteOffTimes (allNotesOff d s) = replicate 128 (internalClock s + word_of_int d)
     \<and> activeNotes (allNotesOff d s) = max 0 (activeNotes s - 128)
     \<and> (0 \<le> n \<and> n < 128 \<longrightarrow> activeNotes (noteOffEvent d' n v s) = max 0 (activeNotes s - 1))"
  using assms by (simp add: allNotesOff_def noteOffEvent_loop noteOffEvent_def)

theorem allNotesOff_timestamps_and_count_witness:
  "length (noteOffTimes (noteOnEvent 0 62 (4/5) (noteOnEvent 0 60 (4/5) (MidiState_new example_config)))) = 128
   \<and> 0 \<le> activeNotes (noteOnEvent 0 62 (4/5) (noteOnEvent 0 60 (4/5) (MidiState_new example_config)))
   \<and> (0::int) \<le> 60 \<and> (60::int) < 128
   \<and> noteOffTimes (allNotesOff 7 (noteOnEvent 0 62 (4/5) (noteOnEvent 0 60 (4/5) (MidiState_new example_config))))
        = replicate 128 7
   \<and> activeNotes (allNotesOff 7 (noteOnEvent 0 62 (4/5) (noteOnEvent 0 60 (4/5) (MidiState_new example_config)))) = 0
   \<and> activeNotes (noteOffEvent 7 60 0 (noteOnEvent 0 62 (4/5) (noteOnEvent 0 60 (4/5) (MidiState_new example_config)))) = 1"
proof -
  let ?s = "noteOnEvent 0 62 (4/5) (noteOnEvent 0 60 (4/5) (MidiState_new example_config))"
  have h: "length (noteOffTimes ?s) = 128" "0 \<le> activeNotes ?s"
    by (simp_all add: noteOnEvent_def MidiState_new_eq)
  have v: "activeNotes ?s = 2" "internalClock ?s = 0"
    by (simp_all add: noteOnEvent_def MidiState_new_eq)
  from allNotesOff_timestamps_and_count [OF h, of 7 60 7 0] h show ?thesis by (simp add: v)
qed

subsection \<open>C9: the count of active notes counts note-on calls\<close>

text \<open>
  C9: every \<open>noteOnEvent\<close> with a note number in range raises the count of active notes
  by exactly one, whatever the state of the note, so that repeated note-ons for one note
  drive the count above 128: 129 note-ons for one note on a new state give 129. The count
  is a C++ \<open>int\<close>, whose increment is defined below \<open>INT_MAX\<close>.
\<close>

theorem noteOnEvent_counts_calls:
  assumes "0 \<le> n" and "n < 128" and "activeNotes s < 2147483647"
  shows "activeNotes (noteOnEvent d n v s) = activeNotes s + 1
     \<and> activeNotes ((noteOnEvent d n v ^^ 129) (MidiState_new cfg)) = 129"
  using assms
  by (simp add: noteOnEvent_funpow_activeNotes MidiState_new_eq) (simp add: noteOnEvent_def)

theorem noteOnEvent_counts_calls_witness:
  "(0::int) \<le> 60 \<and> (60::int) < 128
   \<and> activeNotes (noteOnEvent 0 60 (4/5) (MidiState_new example_config)) < 2147483647
   \<and> activeNotes (noteOnEvent 0 60 (4/5) (noteOnEvent 0 60 (4/5) (MidiState_new example_config))) = 2
   \<and> activeNotes ((noteOnEvent 0 60 (4/5) ^^ 129) (MidiState_new example_config)) = 129"
proof -
  let ?s = "noteOnEvent 0 60 (4/5) (MidiState_new example_config)"
  have a: "activeNotes ?s = 1" by (simp add: noteOnEvent_def MidiState_new_eq)
  then have h: "activeNotes ?s < 2147483647" by simp
  from noteOnEvent_counts_calls [of 60 ?s 0 "4/5" example_config, OF _ _ h]
  show ?thesis by (simp add: a)
qed

subsection \<open>C10: what a change of sample rate touches\<close>

text \<open>
  C10: \<open>setSampleRate\<close> stores the rate, sets the internal clock to 0 and every note-on
  and note-off timestamp to 0, and leaves the velocities, the last played note, the count
  of active notes, the block length and all controller, pitch bend and aftertouch
  timelines as they were.
\<close>

theorem setSampleRate_frame:
  "sampleRate (setSampleRate sr s) = sr
   \<and> internalClock (setSampleRate sr s) = 0
   \<and> noteOnTimes (setSampleRate sr s) = replicate (length (noteOnTimes s)) 0
   \<and> noteOffTimes (setSampleRate sr s) = replicate (length (noteOffTimes s)) 0
   \<and> lastNoteVelocities (setSampleRate sr s) = lastNoteVelocities s
   \<and> lastNotePlayed (setSampleRate sr s) = lastNotePlayed s
   \<and> activeNotes (setSampleRate sr s) = activeNotes s
   \<and> samplesPerBlock (setSampleRate sr s) = samplesPerBlock s
   \<and> cc (setSampleRate sr s) = cc s
   \<and> pitchEvents (setSampleRate sr s) = pitchEvents s
   \<and> channelAftertouchEvents (setSampleRate sr s) = channelAftertouchEvents s"
  by (simp add: setSampleRate_def map_replicate_const)

end
